theory Spec2Isabelle
  imports Complex_Main
begin

section \<open>JavaScript values\<close>

text \<open>
  The plugin is dynamically typed: its settings may hold \<open>false\<close>, numbers or strings, and
  the code tells them apart at run time (\<open>||\<close>, \<open>parseFloat\<close>, \<open>isNaN\<close>,
  \<open>=== undefined\<close>).  The model therefore works on a small universe of primitive values.

  A number is \<open>NaN\<close>, an infinity or a real.  Arithmetic on the finite numbers is exact:
  rounding, overflow and the sign of zero are not represented (\<open>-0\<close> and \<open>0\<close> print and
  compare alike, which is all the plugin does with them).
\<close>

datatype jsnum = NaN | NegInf | PosInf | Fin real

datatype jsval = JUndefined | JNull | JBool bool | JNum jsnum | JStr string

subsection \<open>Number operations\<close>

fun js_neg :: "jsnum \<Rightarrow> jsnum" where
  "js_neg NaN = NaN"
| "js_neg NegInf = PosInf"
| "js_neg PosInf = NegInf"
| "js_neg (Fin a) = Fin (- a)"

definition inf_of_sign :: "real \<Rightarrow> jsnum" where
  "inf_of_sign a = (if a = 0 then NaN else if 0 < a then PosInf else NegInf)"

fun js_mul :: "jsnum \<Rightarrow> jsnum \<Rightarrow> jsnum" where
  "js_mul NaN _ = NaN"
| "js_mul _ NaN = NaN"
| "js_mul (Fin a) (Fin b) = Fin (a * b)"
| "js_mul (Fin a) PosInf = inf_of_sign a"
| "js_mul (Fin a) NegInf = inf_of_sign (- a)"
| "js_mul PosInf (Fin b) = inf_of_sign b"
| "js_mul NegInf (Fin b) = inf_of_sign (- b)"
| "js_mul PosInf PosInf = PosInf"
| "js_mul NegInf NegInf = PosInf"
| "js_mul PosInf NegInf = NegInf"
| "js_mul NegInf PosInf = NegInf"

text \<open>The relational operators; every comparison with \<open>NaN\<close> is false.\<close>

fun js_lt :: "jsnum \<Rightarrow> jsnum \<Rightarrow> bool" where
  "js_lt NaN _ = False"
| "js_lt _ NaN = False"
| "js_lt (Fin a) (Fin b) = (a < b)"
| "js_lt _ NegInf = False"
| "js_lt NegInf _ = True"
| "js_lt PosInf _ = False"
| "js_lt _ PosInf = True"

definition js_gt :: "jsnum \<Rightarrow> jsnum \<Rightarrow> bool" where
  "js_gt a b = js_lt b a"

definition js_le :: "jsnum \<Rightarrow> jsnum \<Rightarrow> bool" where
  "js_le a b = (a \<noteq> NaN \<and> b \<noteq> NaN \<and> \<not> js_lt b a)"

definition Math_max :: "jsnum \<Rightarrow> jsnum \<Rightarrow> jsnum" where
  "Math_max a b = (if a = NaN \<or> b = NaN then NaN else if js_lt a b then b else a)"

definition Math_min :: "jsnum \<Rightarrow> jsnum \<Rightarrow> jsnum" where
  "Math_min a b = (if a = NaN \<or> b = NaN then NaN else if js_lt b a then b else a)"

definition isNaN :: "jsnum \<Rightarrow> bool" where
  "isNaN a = (a = NaN)"

subsection \<open>Strings read as numbers\<close>

text \<open>
  Attribute values and options are often strings (\<open>data-depth="0.20"\<close>), which arithmetic
  converts with \<open>ToNumber\<close> and which \<open>parseFloat\<close> scans for a leading decimal literal.
  Both follow the numeric string grammar of ECMAScript, here over ASCII.
\<close>

definition is_space :: "char \<Rightarrow> bool" where
  "is_space c = ((of_char c :: nat) \<in> {9, 10, 11, 12, 13, 32})"

definition is_digit :: "char \<Rightarrow> bool" where
  "is_digit c = (48 \<le> (of_char c :: nat) \<and> (of_char c :: nat) \<le> 57)"

definition digit_value :: "nat \<Rightarrow> char \<Rightarrow> nat option" where
  "digit_value base c =
     (let n = (of_char c :: nat);
          v = (if 48 \<le> n \<and> n \<le> 57 then n - 48
               else if 97 \<le> n \<and> n \<le> 102 then n - 87
               else if 65 \<le> n \<and> n \<le> 70 then n - 55
               else base)
      in if v < base then Some v else None)"

fun digits_value :: "nat \<Rightarrow> nat \<Rightarrow> string \<Rightarrow> nat option" where
  "digits_value base acc [] = Some acc"
| "digits_value base acc (c # cs) =
     (case digit_value base c of
        None \<Rightarrow> None
      | Some v \<Rightarrow> digits_value base (acc * base + v) cs)"

definition decimal_value :: "string \<Rightarrow> nat" where
  "decimal_value ds = (case digits_value 10 0 ds of None \<Rightarrow> 0 | Some n \<Rightarrow> n)"

definition scan_sign :: "string \<Rightarrow> bool \<times> string" where
  "scan_sign s =
     (case s of
        c # r \<Rightarrow> if c = CHR ''-'' then (True, r) else if c = CHR ''+'' then (False, r) else (False, s)
      | [] \<Rightarrow> (False, s))"

text \<open>The exponent part \<open>e\<close>, optional sign, digits; absent when no digit follows.\<close>

definition scan_exponent :: "string \<Rightarrow> int \<times> string" where
  "scan_exponent s =
     (case s of
        c # r \<Rightarrow>
          if c = CHR ''e'' \<or> c = CHR ''E'' then
            (let (neg, r1) = scan_sign r; ds = takeWhile is_digit r1
             in if ds = [] then (0, s)
                else ((if neg then - int (decimal_value ds) else int (decimal_value ds)),
                      dropWhile is_digit r1))
          else (0, s)
      | [] \<Rightarrow> (0, s))"

definition scale10 :: "real \<Rightarrow> int \<Rightarrow> real" where
  "scale10 m e = (if 0 \<le> e then m * 10 ^ nat e else m / 10 ^ nat (- e))"

text \<open>The longest unsigned decimal literal at the head of a string, and the rest.\<close>

definition scan_unsigned :: "string \<Rightarrow> (jsnum \<times> string) option" where
  "scan_unsigned s =
     (if take 8 s = ''Infinity'' then Some (PosInf, drop 8 s)
      else
        let ip = takeWhile is_digit s; r1 = dropWhile is_digit s;
            dot = (r1 \<noteq> [] \<and> hd r1 = CHR ''.'');
            fp = (if dot then takeWhile is_digit (tl r1) else []);
            r2 = (if dot then dropWhile is_digit (tl r1) else r1)
        in if ip = [] \<and> fp = [] then None
           else
             let (e, r3) = scan_exponent r2;
                 m = real (decimal_value ip) + real (decimal_value fp) / 10 ^ length fp
             in Some (Fin (scale10 m e), r3))"

definition scan_decimal :: "string \<Rightarrow> (jsnum \<times> string) option" where
  "scan_decimal s =
     (let (neg, r) = scan_sign s
      in case scan_unsigned r of
           None \<Rightarrow> None
         | Some (n, rest) \<Rightarrow> Some (if neg then js_neg n else n, rest))"

definition trim :: "string \<Rightarrow> string" where
  "trim s = rev (dropWhile is_space (rev (dropWhile is_space s)))"

definition radix_literal :: "string \<Rightarrow> (nat \<times> string) option" where
  "radix_literal s =
     (case s of
        z # x # r \<Rightarrow>
          if z \<noteq> CHR ''0'' then None
          else if x = CHR ''x'' \<or> x = CHR ''X'' then Some (16, r)
          else if x = CHR ''o'' \<or> x = CHR ''O'' then Some (8, r)
          else if x = CHR ''b'' \<or> x = CHR ''B'' then Some (2, r)
          else None
      | _ \<Rightarrow> None)"

definition StringToNumber :: "string \<Rightarrow> jsnum" where
  "StringToNumber s =
     (let t = trim s
      in if t = [] then Fin 0
         else case radix_literal t of
                Some (base, ds) \<Rightarrow>
                  (if ds = [] then NaN
                   else case digits_value base 0 ds of None \<Rightarrow> NaN | Some n \<Rightarrow> Fin (real n))
              | None \<Rightarrow>
                  (case scan_decimal t of
                     Some (n, []) \<Rightarrow> n
                   | _ \<Rightarrow> NaN))"

subsection \<open>Conversions and operators on values\<close>

fun ToNumber :: "jsval \<Rightarrow> jsnum" where
  "ToNumber JUndefined = NaN"
| "ToNumber JNull = Fin 0"
| "ToNumber (JBool b) = Fin (if b then 1 else 0)"
| "ToNumber (JNum n) = n"
| "ToNumber (JStr s) = StringToNumber s"

text \<open>
  \<open>parseFloat\<close> converts its argument to a string and scans it.  A number printed and
  scanned again is the same number; \<open>undefined\<close>, \<open>null\<close>, \<open>true\<close> and \<open>false\<close> print
  as words that start no literal.
\<close>

fun parseFloat :: "jsval \<Rightarrow> jsnum" where
  "parseFloat (JNum n) = n"
| "parseFloat (JStr s) =
     (case scan_decimal (dropWhile is_space s) of None \<Rightarrow> NaN | Some (n, _) \<Rightarrow> n)"
| "parseFloat _ = NaN"

fun truthy :: "jsval \<Rightarrow> bool" where
  "truthy JUndefined = False"
| "truthy JNull = False"
| "truthy (JBool b) = b"
| "truthy (JNum n) = (n \<noteq> NaN \<and> n \<noteq> Fin 0)"
| "truthy (JStr s) = (s \<noteq> [])"

text \<open>\<open>a || b\<close>\<close>

definition js_or :: "jsval \<Rightarrow> jsval \<Rightarrow> jsval" where
  "js_or a b = (if truthy a then a else b)"


section \<open>Objects and settings\<close>

text \<open>
  An object literal is a finite map from property names to values; reading an absent
  property yields \<open>undefined\<close>.
\<close>

type_synonym obj = "string \<rightharpoonup> jsval"

definition property :: "obj \<Rightarrow> string \<Rightarrow> jsval" where
  "property ob k = (case ob k of None \<Rightarrow> JUndefined | Some v \<Rightarrow> v)"

definition DEFAULTS :: obj where
  "DEFAULTS =
     [''transition'' \<mapsto> JStr ''0.5s cubic-bezier(0.165, 0.84, 0.44, 1)'',
      ''calibrationThreshold'' \<mapsto> JNum (Fin 100),
      ''calibrationDelay'' \<mapsto> JNum (Fin 500),
      ''invertX'' \<mapsto> JBool True,
      ''invertY'' \<mapsto> JBool True,
      ''limitX'' \<mapsto> JBool False,
      ''limitY'' \<mapsto> JBool False,
      ''scalarX'' \<mapsto> JNum (Fin 0.5),
      ''scalarY'' \<mapsto> JNum (Fin 0.5)]"

text \<open>
  \<open>$.extend(target, o1, ..., on)\<close> copies the properties of each source in turn into the
  target, a later source overwriting an earlier one, and skips a property whose value is
  \<open>undefined\<close>.
\<close>

definition extend1 :: "obj \<Rightarrow> obj \<Rightarrow> obj" where
  "extend1 target src =
     (\<lambda>k. case src k of
            None \<Rightarrow> target k
          | Some v \<Rightarrow> if v = JUndefined then target k else Some v)"

definition jQuery_extend :: "obj \<Rightarrow> obj list \<Rightarrow> obj" where
  "jQuery_extend target srcs = foldl extend1 target srcs"

text \<open>
  The container's declarative attributes are read with \<open>.data(name)\<close>, which gives
  \<open>undefined\<close> for an absent attribute; \<open>attrs\<close> holds the attributes of one container,
  each with the value \<open>.data\<close> returns for it.
  ``Data Extraction'' builds the object \<open>data\<close> and ``Delete Null Data Values'' drops its
  \<open>null\<close> entries.
\<close>

definition data_extraction :: "obj \<Rightarrow> obj" where
  "data_extraction attrs =
     [''transition'' \<mapsto> js_or (property attrs ''transition'') JNull,
      ''invertX'' \<mapsto> js_or (property attrs ''invert-x'') JNull,
      ''invertY'' \<mapsto> js_or (property attrs ''invert-y'') JNull,
      ''limitX'' \<mapsto> js_or (JNum (parseFloat (property attrs ''limit-x''))) JNull,
      ''limitY'' \<mapsto> js_or (JNum (parseFloat (property attrs ''limit-y''))) JNull,
      ''scalarX'' \<mapsto> js_or (JNum (parseFloat (property attrs ''scalar-x''))) JNull,
      ''scalarY'' \<mapsto> js_or (JNum (parseFloat (property attrs ''scalar-y''))) JNull]"

definition delete_nulls :: "obj \<Rightarrow> obj" where
  "delete_nulls d = (\<lambda>k. if d k = Some JNull then None else d k)"

text \<open>``Compose Settings Object'': \<open>$.extend(this, DEFAULTS, options, data)\<close>.\<close>

definition compose_settings :: "obj \<Rightarrow> obj \<Rightarrow> obj" where
  "compose_settings options attrs =
     jQuery_extend Map.empty [DEFAULTS, options, delete_nulls (data_extraction attrs)]"

section \<open>The plugin instance\<close>

text \<open>
  The container element as the constructor sees it: its attributes, and the \<open>data-depth\<close>
  value of each \<open>.layer\<close> descendant in document order.
\<close>

record element =
  attr :: obj
  layer_depth :: "jsval list"

text \<open>
  A positioning command is what \<open>setPosition\<close> writes for one layer: a 3D transform, a 2D
  transform, or \<open>left\<close>/\<open>top\<close>, each with the two percentages.
\<close>

datatype position =
    Translate3d jsnum jsnum
  | Translate jsnum jsnum
  | LeftTop jsnum jsnum

fun coords :: "position \<Rightarrow> jsnum \<times> jsnum" where
  "coords (Translate3d x y) = (x, y)"
| "coords (Translate x y) = (x, y)"
| "coords (LeftTop x y) = (x, y)"

text \<open>
  The instance \<open>this\<close>.  Rotation and calibration are numbers: they start at 0 and are only
  assigned from \<open>event.beta || 0\<close> and its siblings, which the platform delivers as a finite
  double or \<open>null\<close>.  The settings hold whatever value the caller supplied.  The last six
  fields are the part of the host the instance acts on: the layers found under the container,
  the commands written by the latest frame, the number of its \<open>deviceorientation\<close>
  subscriptions, the pending animation-frame requests and timeouts (by handle), and the
  next fresh handle.  The CSS written at setup (and with it the \<open>transition\<close> setting) is
  not represented.
\<close>

record plugin =
  calibrationThreshold :: jsval
  calibrationDelay :: jsval
  invertX :: jsval
  invertY :: jsval
  limitX :: jsval
  limitY :: jsval
  scalarX :: jsval
  scalarY :: jsval
  transform2DSupport :: bool
  transform3DSupport :: bool
  portrait :: bool
  calibrationTimer :: "nat option"
  calibrationFlag :: bool
  depths :: "jsval list"
  raf :: "nat option"
  cx :: real
  cy :: real
  cz :: real
  rx :: real
  ry :: real
  rz :: real
  ox :: jsnum
  oy :: jsnum
  layers :: "jsval list"
  positions :: "position list"
  listeners :: nat
  frames :: "nat list"
  timeouts :: "(nat \<times> jsval) list"
  next_handle :: nat

subsection \<open>Host functions\<close>

definition setTimeout :: "jsval \<Rightarrow> plugin \<Rightarrow> nat \<times> plugin" where
  "setTimeout delay s =
     (next_handle s,
      s\<lparr>timeouts := timeouts s @ [(next_handle s, delay)], next_handle := Suc (next_handle s)\<rparr>)"

definition clearTimeout :: "nat option \<Rightarrow> plugin \<Rightarrow> plugin" where
  "clearTimeout h s =
     (case h of
        None \<Rightarrow> s
      | Some i \<Rightarrow> s\<lparr>timeouts := filter (\<lambda>t. fst t \<noteq> i) (timeouts s)\<rparr>)"

definition requestAnimationFrame :: "plugin \<Rightarrow> nat \<times> plugin" where
  "requestAnimationFrame s =
     (next_handle s,
      s\<lparr>frames := frames s @ [next_handle s], next_handle := Suc (next_handle s)\<rparr>)"

definition cancelAnimationFrame :: "nat option \<Rightarrow> plugin \<Rightarrow> plugin" where
  "cancelAnimationFrame h s =
     (case h of
        None \<Rightarrow> s
      | Some i \<Rightarrow> s\<lparr>frames := filter (\<lambda>j. j \<noteq> i) (frames s)\<rparr>)"

subsection \<open>Methods\<close>

definition calibrate :: "jsval \<Rightarrow> plugin \<Rightarrow> plugin" where
  "calibrate delay s =
     (let (h, s1) = setTimeout delay (clearTimeout (calibrationTimer s) s)
      in s1\<lparr>calibrationTimer := Some h\<rparr>)"

definition enable :: "plugin \<Rightarrow> plugin" where
  "enable s =
     (let (h, s1) = requestAnimationFrame (s\<lparr>listeners := Suc (listeners s)\<rparr>)
      in s1\<lparr>raf := Some h\<rparr>)"

text \<open>
  \<open>off\<close> is given the unbound method; jQuery and Zepto match handlers by the identifier
  that \<open>$.proxy\<close> shares between a function and its proxies, so every subscription made by
  \<open>enable\<close> is removed.
\<close>

definition disable :: "plugin \<Rightarrow> plugin" where
  "disable s = cancelAnimationFrame (raf s) (s\<lparr>listeners := 0\<rparr>)"

definition invert :: "jsval \<Rightarrow> jsval \<Rightarrow> plugin \<Rightarrow> plugin" where
  "invert x y s =
     s\<lparr>invertX := (if x = JUndefined then invertX s else x),
       invertY := (if y = JUndefined then invertY s else y)\<rparr>"

definition scalar :: "jsval \<Rightarrow> jsval \<Rightarrow> plugin \<Rightarrow> plugin" where
  "scalar x y s =
     s\<lparr>scalarX := (if x = JUndefined then scalarX s else x),
       scalarY := (if y = JUndefined then scalarY s else y)\<rparr>"

definition limit :: "jsval \<Rightarrow> jsval \<Rightarrow> plugin \<Rightarrow> plugin" where
  "limit x y s =
     s\<lparr>limitX := (if x = JUndefined then limitX s else x),
       limitY := (if y = JUndefined then limitY s else y)\<rparr>"

definition clamp :: "jsnum \<Rightarrow> jsnum \<Rightarrow> jsnum \<Rightarrow> jsnum" where
  "clamp value mn mx = Math_min (Math_max value mn) mx"

definition setPosition :: "plugin \<Rightarrow> jsnum \<Rightarrow> jsnum \<Rightarrow> position" where
  "setPosition s x y =
     (if transform3DSupport s then Translate3d x y
      else if transform2DSupport s then Translate x y
      else LeftTop x y)"

text \<open>\<open>this.depths[index]\<close>: \<open>undefined\<close> beyond the end of the array.\<close>

definition depth_at :: "jsval list \<Rightarrow> nat \<Rightarrow> jsval" where
  "depth_at ds i = (if i < length ds then ds ! i else JUndefined)"

definition layer_position :: "plugin \<Rightarrow> nat \<Rightarrow> position" where
  "layer_position s index =
     (let depth = depth_at (depths s) index;
          xOffset = js_mul (js_mul (ox s) (ToNumber depth)) (Fin (if truthy (invertX s) then - 1 else 1));
          yOffset = js_mul (js_mul (oy s) (ToNumber depth)) (Fin (if truthy (invertY s) then - 1 else 1))
      in setPosition s xOffset yOffset)"

definition onAnimationFrame :: "plugin \<Rightarrow> plugin" where
  "onAnimationFrame s =
     (let dx = rx s - cx s;
          dy = ry s - cy s;
          s1 = (if js_gt (Fin \<bar>dx\<bar>) (ToNumber (calibrationThreshold s))
                   \<or> js_gt (Fin \<bar>dy\<bar>) (ToNumber (calibrationThreshold s))
                then calibrate (JNum (Fin 0)) s else s);
          s2 = (if portrait s1
                then s1\<lparr>ox := js_mul (Fin dy) (ToNumber (scalarX s1)),
                        oy := js_mul (Fin dx) (ToNumber (scalarY s1))\<rparr>
                else s1\<lparr>ox := js_mul (Fin dx) (ToNumber (scalarX s1)),
                        oy := js_mul (Fin dy) (ToNumber (scalarY s1))\<rparr>);
          s3 = (if \<not> isNaN (parseFloat (limitX s2))
                then s2\<lparr>ox := clamp (ox s2) (js_neg (ToNumber (limitX s2))) (ToNumber (limitX s2))\<rparr>
                else s2);
          s4 = (if \<not> isNaN (parseFloat (limitY s3))
                then s3\<lparr>oy := clamp (oy s3) (js_neg (ToNumber (limitY s3))) (ToNumber (limitY s3))\<rparr>
                else s3);
          s5 = s4\<lparr>positions := map (layer_position s4) [0..<length (layers s4)]\<rparr>;
          (h, s6) = requestAnimationFrame s5
      in s6\<lparr>raf := Some h\<rparr>)"

text \<open>
  The offsets as \<open>onAnimationFrame\<close> first assigns them (lines 235 to 241), before it
  applies the limits: the raw offsets of the frame that starts in a given state.
\<close>

definition raw_offsets :: "plugin \<Rightarrow> jsnum \<times> jsnum" where
  "raw_offsets s =
     (let dx = rx s - cx s;
          dy = ry s - cy s
      in if portrait s
         then (js_mul (Fin dy) (ToNumber (scalarX s)), js_mul (Fin dx) (ToNumber (scalarY s)))
         else (js_mul (Fin dx) (ToNumber (scalarX s)), js_mul (Fin dy) (ToNumber (scalarY s))))"

text \<open>
  A \<open>deviceorientation\<close> event and the viewport it arrives in.  \<open>event.beta || 0\<close> is 0 for
  an absent or \<open>null\<close> angle and the angle itself otherwise (0 for 0).
\<close>

record orientation =
  beta :: "real option"
  gamma :: "real option"
  alpha :: "real option"

record window =
  innerWidth :: int
  innerHeight :: int

definition or_zero :: "real option \<Rightarrow> real" where
  "or_zero a = (case a of None \<Rightarrow> 0 | Some v \<Rightarrow> v)"

text \<open>The three blocks of \<open>onDeviceOrientation\<close>, named after their comments.\<close>

definition detectOrientationChange :: "window \<Rightarrow> plugin \<Rightarrow> plugin" where
  "detectOrientationChange w s =
     (let portrait' = (innerHeight w > innerWidth w)
      in if portrait s \<noteq> portrait'
         then s\<lparr>portrait := portrait', calibrationFlag := True\<rparr>
         else s)"

definition setCalibrationRotation :: "real \<Rightarrow> real \<Rightarrow> real \<Rightarrow> plugin \<Rightarrow> plugin" where
  "setCalibrationRotation x y z s =
     (if calibrationFlag s
      then s\<lparr>calibrationFlag := False, cx := x, cy := y, cz := z\<rparr>
      else s)"

definition setRotation :: "real \<Rightarrow> real \<Rightarrow> real \<Rightarrow> plugin \<Rightarrow> plugin" where
  "setRotation x y z s = s\<lparr>rx := x, ry := y, rz := z\<rparr>"

definition onDeviceOrientation :: "window \<Rightarrow> orientation \<Rightarrow> plugin \<Rightarrow> plugin" where
  "onDeviceOrientation w event s =
     (let x = or_zero (beta event);
          y = or_zero (gamma event);
          z = or_zero (alpha event)
      in setRotation x y z (setCalibrationRotation x y z (detectOrientationChange w s)))"

subsection \<open>Construction\<close>

text \<open>
  \<open>initialise\<close> caches one depth per layer (\<open>data('depth') || 0\<close>), then enables the
  instance and schedules the first calibration.
\<close>

definition initialise :: "plugin \<Rightarrow> plugin" where
  "initialise s =
     (let s1 = s\<lparr>depths := depths s @ map (\<lambda>d. js_or d (JNum (Fin 0))) (layers s)\<rparr>;
          s2 = enable s1
      in calibrate (calibrationDelay s2) s2)"

definition Plugin :: "bool \<Rightarrow> bool \<Rightarrow> element \<Rightarrow> obj \<Rightarrow> plugin" where
  "Plugin support2D support3D el options =
     (let this = compose_settings options (attr el)
      in initialise
           \<lparr>calibrationThreshold = property this ''calibrationThreshold'',
            calibrationDelay = property this ''calibrationDelay'',
            invertX = property this ''invertX'',
            invertY = property this ''invertY'',
            limitX = property this ''limitX'',
            limitY = property this ''limitY'',
            scalarX = property this ''scalarX'',
            scalarY = property this ''scalarY'',
            transform2DSupport = support2D,
            transform3DSupport = support3D,
            portrait = True,
            calibrationTimer = None,
            calibrationFlag = True,
            depths = [],
            raf = None,
            cx = 0, cy = 0, cz = 0,
            rx = 0, ry = 0, rz = 0,
            ox = Fin 0, oy = Fin 0,
            layers = layer_depth el,
            positions = [],
            listeners = 0,
            frames = [],
            timeouts = [],
            next_handle = 0\<rparr>)"

subsection \<open>The host's event loop\<close>

text \<open>
  The handlers run when the host calls them: a \<open>deviceorientation\<close> event calls
  \<open>onDeviceOrientation\<close> once per subscription, a rendered frame calls
  \<open>onAnimationFrame\<close> once per request that was pending when the frame began, and an
  expired timeout runs the callback that \<open>calibrate\<close> installed, which sets the
  calibration flag.  The remaining actions are the calls of the public interface.
\<close>

definition timeout_fires :: "nat \<Rightarrow> plugin \<Rightarrow> plugin" where
  "timeout_fires h s =
     (if h \<in> fst ` set (timeouts s)
      then s\<lparr>timeouts := filter (\<lambda>t. fst t \<noteq> h) (timeouts s), calibrationFlag := True\<rparr>
      else s)"

datatype action =
    DeviceOrientation window orientation
  | AnimationFrame
  | Timeout nat
  | CallEnable
  | CallDisable
  | CallInvert jsval jsval
  | CallScalar jsval jsval
  | CallLimit jsval jsval

fun step :: "action \<Rightarrow> plugin \<Rightarrow> plugin" where
  "step (DeviceOrientation w event) s = (onDeviceOrientation w event ^^ listeners s) s"
| "step AnimationFrame s = fold (\<lambda>h. onAnimationFrame) (frames s) (s\<lparr>frames := []\<rparr>)"
| "step (Timeout h) s = timeout_fires h s"
| "step CallEnable s = enable s"
| "step CallDisable s = disable s"
| "step (CallInvert x y) s = invert x y s"
| "step (CallScalar x y) s = scalar x y s"
| "step (CallLimit x y) s = limit x y s"

definition run :: "action list \<Rightarrow> plugin \<Rightarrow> plugin" where
  "run acts s = fold step acts s"

section \<open>The specification's vocabulary\<close>

text \<open>
  The notions the specification speaks in.  \<open>mode\<close>, \<open>config\<close> and \<open>bias\<close> read them off
  an instance; \<open>spec_clamp\<close>, \<open>spec_raw\<close>, \<open>spec_Offset_Transform\<close> and
  \<open>spec_orientation_mode\<close> follow the wording of the specification, not the code, and the
  theorems below compare them with the code.
\<close>

datatype OrientationMode = Portrait | Landscape

definition mode :: "plugin \<Rightarrow> OrientationMode" where
  "mode s = (if portrait s then Portrait else Landscape)"








text \<open>
  The orientation mode as the specification words it: Landscape if the viewport is wider
  than high, else Portrait.
\<close>

definition spec_orientation_mode :: "window \<Rightarrow> OrientationMode" where
  "spec_orientation_mode w = (if innerWidth w > innerHeight w then Landscape else Portrait)"

text \<open>
  A setting as the explicit options determine it: the option when it is supplied (and not
  \<open>undefined\<close>), the default otherwise.
\<close>

definition from_options :: "obj \<Rightarrow> string \<Rightarrow> jsval" where
  "from_options options k = property (jQuery_extend Map.empty [DEFAULTS, options]) k"

text \<open>The bias, and two states that agree on everything but the stored z angles.\<close>

definition bias :: "plugin \<Rightarrow> real \<times> real \<times> real" where
  "bias s = (cx s, cy s, cz s)"

definition forget_z :: "plugin \<Rightarrow> plugin" where
  "forget_z s = s\<lparr>cz := 0, rz := 0\<rparr>"

fun forget_alpha :: "action \<Rightarrow> action" where
  "forget_alpha (DeviceOrientation w event) = DeviceOrientation w (event\<lparr>alpha := None\<rparr>)"
| "forget_alpha a = a"

section \<open>Example inputs\<close>

text \<open>
  A container with three layers, the first without a depth attribute, and a declared limit
  and scalar; options that set the same scalar explicitly; a square viewport; two samples.
\<close>

definition example_container :: element where
  "example_container =
     \<lparr>attr = [''limit-x'' \<mapsto> JNum (Fin 1), ''scalar-x'' \<mapsto> JNum (Fin 5)],
      layer_depth = [JUndefined, JStr ''0.20'', JNum (Fin 1)]\<rparr>"

definition example_options :: obj where
  "example_options = [''scalarX'' \<mapsto> JNum (Fin 2), ''scalarY'' \<mapsto> JNum (Fin 3)]"

definition example_instance :: plugin where
  "example_instance = Plugin True True example_container example_options"

definition square_viewport :: window where
  "square_viewport = \<lparr>innerWidth = 500, innerHeight = 500\<rparr>"

definition tall_viewport :: window where
  "tall_viewport = \<lparr>innerWidth = 320, innerHeight = 480\<rparr>"

definition sample_flat :: orientation where
  "sample_flat = \<lparr>beta = Some 10, gamma = Some 20, alpha = Some 30\<rparr>"

definition sample_tilted :: orientation where
  "sample_tilted = \<lparr>beta = Some 15, gamma = Some 25, alpha = None\<rparr>"

text \<open>The instance after a first sample, which calibrates it, and after a second one.\<close>

definition calibrated_instance :: plugin where
  "calibrated_instance = onDeviceOrientation tall_viewport sample_flat example_instance"

definition tilted_instance :: plugin where
  "tilted_instance = onDeviceOrientation tall_viewport sample_tilted calibrated_instance"

text \<open>
  The calibrated instance with an infinite and with a non-numeric x scalar, the tilted one
  with a string as x limit, and the actions that lead to the tilted instance followed by a
  call that sets a negative and an infinite negative limit.
\<close>

definition overdriven_instance :: plugin where
  "overdriven_instance = scalar (JNum PosInf) JUndefined calibrated_instance"

definition misconfigured_instance :: plugin where
  "misconfigured_instance = scalar (JStr ''fast'') JUndefined calibrated_instance"


definition negative_limit_actions :: "action list" where
  "negative_limit_actions =
     [DeviceOrientation tall_viewport sample_flat, DeviceOrientation tall_viewport sample_tilted,
      CallLimit (JNum (Fin (- 2))) (JNum NegInf)]"

section \<open>Basic facts about the methods\<close>

lemma calibrate_eq:
  "calibrate d s =
     s\<lparr>timeouts := (case calibrationTimer s of None \<Rightarrow> timeouts s
                       | Some i \<Rightarrow> filter (\<lambda>t. fst t \<noteq> i) (timeouts s)) @ [(next_handle s, d)],
       next_handle := Suc (next_handle s),
       calibrationTimer := Some (next_handle s)\<rparr>"
  by (simp add: calibrate_def setTimeout_def clearTimeout_def split: option.split)

lemma enable_eq:
  "enable s =
     s\<lparr>listeners := Suc (listeners s), frames := frames s @ [next_handle s],
       next_handle := Suc (next_handle s), raf := Some (next_handle s)\<rparr>"
  by (simp add: enable_def requestAnimationFrame_def)

text \<open>One frame, as a single update of the state it starts from.\<close>

lemma onAnimationFrame_eq:
  "onAnimationFrame s =
     (let c = (js_gt (Fin \<bar>rx s - cx s\<bar>) (ToNumber (calibrationThreshold s))
               \<or> js_gt (Fin \<bar>ry s - cy s\<bar>) (ToNumber (calibrationThreshold s)));
          n = (if c then Suc (next_handle s) else next_handle s);
          xraw = (if portrait s then js_mul (Fin (ry s - cy s)) (ToNumber (scalarX s))
                  else js_mul (Fin (rx s - cx s)) (ToNumber (scalarX s)));
          yraw = (if portrait s then js_mul (Fin (rx s - cx s)) (ToNumber (scalarY s))
                  else js_mul (Fin (ry s - cy s)) (ToNumber (scalarY s)));
          X = (if isNaN (parseFloat (limitX s)) then xraw
               else clamp xraw (js_neg (ToNumber (limitX s))) (ToNumber (limitX s)));
          Y = (if isNaN (parseFloat (limitY s)) then yraw
               else clamp yraw (js_neg (ToNumber (limitY s))) (ToNumber (limitY s)))
      in s\<lparr>ox := X, oy := Y,
           positions := map (layer_position (s\<lparr>ox := X, oy := Y\<rparr>)) [0..<length (layers s)],
           timeouts := (if c then timeouts (calibrate (JNum (Fin 0)) s) else timeouts s),
           calibrationTimer := (if c then Some (next_handle s) else calibrationTimer s),
           frames := frames s @ [n], next_handle := Suc n, raf := Some n\<rparr>)"
  by (rule plugin.equality)
    (simp_all add: onAnimationFrame_def Let_def calibrate_eq requestAnimationFrame_def
      layer_position_def setPosition_def)

lemma ox_onAnimationFrame:
  "ox (onAnimationFrame s) =
     (let raw = (if portrait s then js_mul (Fin (ry s - cy s)) (ToNumber (scalarX s))
                 else js_mul (Fin (rx s - cx s)) (ToNumber (scalarX s)))
      in if isNaN (parseFloat (limitX s)) then raw
         else clamp raw (js_neg (ToNumber (limitX s))) (ToNumber (limitX s)))"
  by (simp add: onAnimationFrame_eq Let_def)

lemma oy_onAnimationFrame:
  "oy (onAnimationFrame s) =
     (let raw = (if portrait s then js_mul (Fin (rx s - cx s)) (ToNumber (scalarY s))
                 else js_mul (Fin (ry s - cy s)) (ToNumber (scalarY s)))
      in if isNaN (parseFloat (limitY s)) then raw
         else clamp raw (js_neg (ToNumber (limitY s))) (ToNumber (limitY s)))"
  by (simp add: onAnimationFrame_eq Let_def)

lemma onAnimationFrame_static:
  "depths (onAnimationFrame s) = depths s"
  "layers (onAnimationFrame s) = layers s"
  "cx (onAnimationFrame s) = cx s"
  "cy (onAnimationFrame s) = cy s"
  "cz (onAnimationFrame s) = cz s"
  by (simp_all add: onAnimationFrame_eq Let_def)

lemma positions_onAnimationFrame:
  "positions (onAnimationFrame s) =
     map (layer_position (s\<lparr>ox := ox (onAnimationFrame s), oy := oy (onAnimationFrame s)\<rparr>))
       [0..<length (layers s)]"
  by (simp add: onAnimationFrame_eq Let_def)

lemma portrait_onDeviceOrientation:
  "portrait (onDeviceOrientation w event s) = (innerHeight w > innerWidth w)"
  by (simp add: onDeviceOrientation_def setRotation_def setCalibrationRotation_def
      detectOrientationChange_def Let_def)

lemma funpow_preserves:
  assumes "\<And>x. P (f x) = P x"
  shows "P ((f ^^ n) s) = P s"
  by (induction n) (simp_all add: assms)

lemma fold_preserves:
  assumes "\<And>h x. P (f h x) = P x"
  shows "P (fold f hs s) = P s"
  by (induction hs arbitrary: s) (simp_all add: assms)

lemma onDeviceOrientation_static:
  "depths (onDeviceOrientation w e s) = depths s"
  "layers (onDeviceOrientation w e s) = layers s"
  "listeners (onDeviceOrientation w e s) = listeners s"
  by (simp_all add: onDeviceOrientation_def setRotation_def setCalibrationRotation_def
      detectOrientationChange_def Let_def)

text \<open>The example instance, evaluated.\<close>

lemma example_instance_eq:
  "example_instance =
     \<lparr>calibrationThreshold = JNum (Fin 100), calibrationDelay = JNum (Fin 500),
      invertX = JBool True, invertY = JBool True, limitX = JNum (Fin 1),
      limitY = JBool False, scalarX = JNum (Fin 5), scalarY = JNum (Fin 3),
      transform2DSupport = True, transform3DSupport = True, portrait = True,
      calibrationTimer = Some 1, calibrationFlag = True,
      depths = [JNum (Fin 0), JStr ''0.20'', JNum (Fin 1)], raf = Some 0,
      cx = 0, cy = 0, cz = 0, rx = 0, ry = 0, rz = 0, ox = Fin 0, oy = Fin 0,
      layers = [JUndefined, JStr ''0.20'', JNum (Fin 1)], positions = [],
      listeners = 1, frames = [0], timeouts = [(1, JNum (Fin 500))],
      next_handle = 2\<rparr>"
  by (simp add: example_instance_def example_container_def example_options_def Plugin_def
      compose_settings_def jQuery_extend_def extend1_def delete_nulls_def data_extraction_def
      DEFAULTS_def property_def js_or_def initialise_def enable_eq calibrate_eq Let_def)

text \<open>The raw offsets of a frame, and its offsets in terms of them.\<close>

lemma raw_offsets_eq:
  "raw_offsets s =
     (if portrait s
      then (js_mul (Fin (ry s - cy s)) (ToNumber (scalarX s)),
            js_mul (Fin (rx s - cx s)) (ToNumber (scalarY s)))
      else (js_mul (Fin (rx s - cx s)) (ToNumber (scalarX s)),
            js_mul (Fin (ry s - cy s)) (ToNumber (scalarY s))))"
  by (simp add: raw_offsets_def Let_def)


lemma ox_frame_raw:
  "ox (onAnimationFrame s) =
     (if isNaN (parseFloat (limitX s)) then fst (raw_offsets s)
      else clamp (fst (raw_offsets s)) (js_neg (ToNumber (limitX s))) (ToNumber (limitX s)))"
  by (simp add: ox_onAnimationFrame raw_offsets_eq Let_def)

lemma oy_frame_raw:
  "oy (onAnimationFrame s) =
     (if isNaN (parseFloat (limitY s)) then snd (raw_offsets s)
      else clamp (snd (raw_offsets s)) (js_neg (ToNumber (limitY s))) (ToNumber (limitY s)))"
  by (simp add: oy_onAnimationFrame raw_offsets_eq Let_def)

lemma raw_offsets_finite:
  "ToNumber (scalarX s) = Fin k \<Longrightarrow> fst (raw_offsets s) \<noteq> NaN"
  "ToNumber (scalarY s) = Fin k \<Longrightarrow> snd (raw_offsets s) \<noteq> NaN"
  by (simp_all add: raw_offsets_eq)

section \<open>Orientation\<close>

text \<open>
  C4, as the specification states it, fails on a square viewport: the specification's rule
  gives Portrait there, the handler decides Landscape.
\<close>

theorem square_viewport_counterexample:
  "innerWidth square_viewport = innerHeight square_viewport \<and>
   spec_orientation_mode square_viewport = Portrait \<and>
   mode (onDeviceOrientation square_viewport sample_flat example_instance) = Landscape"
  by (simp add: mode_def portrait_onDeviceOrientation spec_orientation_mode_def square_viewport_def)

text \<open>
  C4, amended.  Each time the handler processes a sample, the mode it determines is Portrait
  if the viewport is higher than wide and Landscape otherwise, so Landscape when width and
  height are equal.
\<close>

theorem orientation_mode_from_viewport:
  "mode (onDeviceOrientation w event s) =
     (if innerHeight w > innerWidth w then Portrait else Landscape)"
  by (simp add: mode_def portrait_onDeviceOrientation)

section \<open>Clamping\<close>

lemma clamp_within:
  "js_le (Fin 0) L \<Longrightarrow> v \<noteq> NaN \<Longrightarrow>
     js_le (js_neg L) (clamp v (js_neg L) L) \<and> js_le (clamp v (js_neg L) L) L"
  by (cases L; cases v) (auto simp: clamp_def Math_max_def Math_min_def js_le_def)

lemma clamp_zero: "js_le (Fin 0) L \<Longrightarrow> clamp (Fin 0) (js_neg L) L = Fin 0"
  by (cases L) (auto simp: clamp_def Math_max_def Math_min_def js_le_def)

lemma clamp_negative: "js_lt L (Fin 0) \<Longrightarrow> v \<noteq> NaN \<Longrightarrow> clamp v (js_neg L) L = L"
  by (cases L; cases v) (auto simp: clamp_def Math_max_def Math_min_def)


lemma clamp_NaN: "clamp NaN mn mx = NaN"
  by (simp add: clamp_def Math_max_def Math_min_def)

lemma clamp_within_iff:
  "js_le (Fin 0) L \<Longrightarrow>
     (js_le (js_neg L) (clamp v (js_neg L) L) \<and> js_le (clamp v (js_neg L) L) L) = (v \<noteq> NaN)"
  using clamp_within[of L v] by (auto simp: clamp_NaN js_le_def)

lemma clamp_negative_iff:
  "js_lt L (Fin 0) \<Longrightarrow> (clamp v (js_neg L) L = L) = (v \<noteq> NaN)"
  using clamp_negative[of L v] by (cases L) (auto simp: clamp_NaN)

text \<open>The example instance after its first and second sample, evaluated.\<close>

lemma calibrated_instance_eq:
  "calibrated_instance =
     \<lparr>calibrationThreshold = JNum (Fin 100), calibrationDelay = JNum (Fin 500),
      invertX = JBool True, invertY = JBool True, limitX = JNum (Fin 1),
      limitY = JBool False, scalarX = JNum (Fin 5), scalarY = JNum (Fin 3),
      transform2DSupport = True, transform3DSupport = True, portrait = True,
      calibrationTimer = Some 1, calibrationFlag = False,
      depths = [JNum (Fin 0), JStr ''0.20'', JNum (Fin 1)], raf = Some 0,
      cx = 10, cy = 20, cz = 30, rx = 10, ry = 20, rz = 30, ox = Fin 0, oy = Fin 0,
      layers = [JUndefined, JStr ''0.20'', JNum (Fin 1)], positions = [],
      listeners = 1, frames = [0], timeouts = [(1, JNum (Fin 500))],
      next_handle = 2\<rparr>"
  by (simp add: calibrated_instance_def example_instance_eq onDeviceOrientation_def
      detectOrientationChange_def setCalibrationRotation_def setRotation_def or_zero_def
      tall_viewport_def sample_flat_def Let_def)

lemma tilted_instance_eq:
  "tilted_instance =
     \<lparr>calibrationThreshold = JNum (Fin 100), calibrationDelay = JNum (Fin 500),
      invertX = JBool True, invertY = JBool True, limitX = JNum (Fin 1),
      limitY = JBool False, scalarX = JNum (Fin 5), scalarY = JNum (Fin 3),
      transform2DSupport = True, transform3DSupport = True, portrait = True,
      calibrationTimer = Some 1, calibrationFlag = False,
      depths = [JNum (Fin 0), JStr ''0.20'', JNum (Fin 1)], raf = Some 0,
      cx = 10, cy = 20, cz = 30, rx = 15, ry = 25, rz = 0, ox = Fin 0, oy = Fin 0,
      layers = [JUndefined, JStr ''0.20'', JNum (Fin 1)], positions = [],
      listeners = 1, frames = [0], timeouts = [(1, JNum (Fin 500))],
      next_handle = 2\<rparr>"
  by (simp add: tilted_instance_def calibrated_instance_eq onDeviceOrientation_def
      detectOrientationChange_def setCalibrationRotation_def setRotation_def or_zero_def
      tall_viewport_def sample_tilted_def Let_def)

text \<open>The example instances with changed settings, and the string conversions they use.\<close>

lemmas string_number_defs =
  StringToNumber_def trim_def is_space_def radix_literal_def scan_decimal_def scan_sign_def
  scan_unsigned_def is_digit_def scan_exponent_def decimal_value_def digit_value_def scale10_def


lemma overdriven_instance_eq:
  "overdriven_instance = calibrated_instance\<lparr>scalarX := JNum PosInf\<rparr>"
  by (simp add: overdriven_instance_def scalar_def)

lemma misconfigured_instance_eq:
  "misconfigured_instance = calibrated_instance\<lparr>scalarX := JStr ''fast''\<rparr>"
  by (simp add: misconfigured_instance_def scalar_def)


section \<open>The Offset Transform\<close>





section \<open>Limits\<close>

text \<open>
  C5, as the specification states it, fails for an infinite scalar: at rest the raw offset
  is \<open>0 * Infinity = NaN\<close>, clamping keeps \<open>NaN\<close>, and \<open>NaN\<close> lies within no bounds.
\<close>

theorem infinite_scalar_unbounded_counterexample:
  "limitX overdriven_instance = JNum (Fin 1) \<and> scalarX overdriven_instance = JNum PosInf \<and>
   ry overdriven_instance - cy overdriven_instance = 0 \<and>
   ox (onAnimationFrame overdriven_instance) = NaN \<and>
   \<not> js_le (Fin (- 1)) (ox (onAnimationFrame overdriven_instance)) \<and>
   \<not> js_le (ox (onAnimationFrame overdriven_instance)) (Fin 1)"
  by (simp add: overdriven_instance_eq calibrated_instance_eq ox_frame_raw raw_offsets_eq
      isNaN_def clamp_def Math_max_def Math_min_def inf_of_sign_def js_le_def)

text \<open>
  C5, amended.  When \<open>limitX\<close> holds a number \<open>L \<ge> 0\<close>, the offset \<open>ox\<close> that a frame
  computes satisfies \<open>-L \<le> ox \<le> L\<close> for every rotation sample, bias, scalar and orientation
  mode whose raw offset \<open>ox_raw\<close> is a number (as it is for every scalar that converts to a
  finite number), and for no other.  Symmetrically for \<open>limitY\<close> and \<open>oy\<close>.
\<close>

theorem limit_bounds_offset:
  "(limitX s = JNum L \<and> js_le (Fin 0) L \<longrightarrow>
      (js_le (js_neg L) (ox (onAnimationFrame s)) \<and> js_le (ox (onAnimationFrame s)) L) =
        (fst (raw_offsets s) \<noteq> NaN)) \<and>
   (limitY s = JNum L \<and> js_le (Fin 0) L \<longrightarrow>
      (js_le (js_neg L) (oy (onAnimationFrame s)) \<and> js_le (oy (onAnimationFrame s)) L) =
        (snd (raw_offsets s) \<noteq> NaN)) \<and>
   (ToNumber (scalarX s) = Fin k \<longrightarrow> fst (raw_offsets s) \<noteq> NaN) \<and>
   (ToNumber (scalarY s) = Fin k \<longrightarrow> snd (raw_offsets s) \<noteq> NaN)"
proof (intro conjI impI)
  assume h: "limitX s = JNum L \<and> js_le (Fin 0) L"
  then have "L \<noteq> NaN"
    by (auto simp: js_le_def)
  with h show "(js_le (js_neg L) (ox (onAnimationFrame s)) \<and> js_le (ox (onAnimationFrame s)) L) =
      (fst (raw_offsets s) \<noteq> NaN)"
    using clamp_within_iff[of L "fst (raw_offsets s)"]
    by (simp add: ox_frame_raw isNaN_def)
next
  assume h: "limitY s = JNum L \<and> js_le (Fin 0) L"
  then have "L \<noteq> NaN"
    by (auto simp: js_le_def)
  with h show "(js_le (js_neg L) (oy (onAnimationFrame s)) \<and> js_le (oy (onAnimationFrame s)) L) =
      (snd (raw_offsets s) \<noteq> NaN)"
    using clamp_within_iff[of L "snd (raw_offsets s)"]
    by (simp add: oy_frame_raw isNaN_def)
qed (simp_all add: raw_offsets_finite)

text \<open>
  The tilted example instance has \<open>limitX = 1\<close> and a raw x offset of 25; with
  \<open>limitY\<close> set to 2 its raw y offset of 15 is bounded as well.
\<close>

theorem limit_bounds_offset_witness:
  "limitX tilted_instance = JNum (Fin 1) \<and> fst (raw_offsets tilted_instance) = Fin 25 \<and>
   js_le (Fin (- 1)) (ox (onAnimationFrame tilted_instance)) \<and>
   js_le (ox (onAnimationFrame tilted_instance)) (Fin 1) \<and>
   limitY (limit JUndefined (JNum (Fin 2)) tilted_instance) = JNum (Fin 2) \<and>
   js_le (Fin (- 2)) (oy (onAnimationFrame (limit JUndefined (JNum (Fin 2)) tilted_instance))) \<and>
   js_le (oy (onAnimationFrame (limit JUndefined (JNum (Fin 2)) tilted_instance))) (Fin 2)"
  using limit_bounds_offset[of tilted_instance "Fin 1" 5]
    limit_bounds_offset[of "limit JUndefined (JNum (Fin 2)) tilted_instance" "Fin 2" 3]
  by (simp add: tilted_instance_eq limit_def js_le_def raw_offsets_eq)

text \<open>
  C9, as the specification states it, fails for an infinite scalar: at rest the raw offset
  is \<open>NaN\<close>, and so is the clamped one, whatever the limit.
\<close>

theorem negative_limit_nan_counterexample:
  "limitX (limit (JNum (Fin (- 2))) JUndefined overdriven_instance) = JNum (Fin (- 2)) \<and>
   scalarX (limit (JNum (Fin (- 2))) JUndefined overdriven_instance) = JNum PosInf \<and>
   fst (raw_offsets (limit (JNum (Fin (- 2))) JUndefined overdriven_instance)) = NaN \<and>
   ox (onAnimationFrame (limit (JNum (Fin (- 2))) JUndefined overdriven_instance)) = NaN \<and>
   ox (onAnimationFrame (limit (JNum (Fin (- 2))) JUndefined overdriven_instance)) \<noteq> Fin (- 2)"
  by (simp add: limit_def overdriven_instance_eq calibrated_instance_eq ox_frame_raw
      raw_offsets_eq isNaN_def clamp_def Math_max_def Math_min_def inf_of_sign_def)

text \<open>
  C9, amended.  When \<open>limitX\<close> holds a number \<open>L < 0\<close>, which the setter \<open>limit\<close> stores
  without validation, the offset \<open>ox\<close> that a frame computes is exactly \<open>L\<close> for every
  rotation sample, bias, scalar and orientation mode whose raw offset is a number (as it is
  for every scalar that converts to a finite number), and for no other: \<open>clamp\<close> takes
  \<open>Math.max\<close> with the lower bound \<open>-L\<close> first and \<open>Math.min\<close> with the upper bound \<open>L\<close>
  last.  Symmetrically for \<open>limitY\<close> and \<open>oy\<close>.
\<close>

theorem negative_limit_pins_offset:
  "(limitX s = JNum L \<and> js_lt L (Fin 0) \<longrightarrow>
      (ox (onAnimationFrame s) = L) = (fst (raw_offsets s) \<noteq> NaN)) \<and>
   (limitY s = JNum L \<and> js_lt L (Fin 0) \<longrightarrow>
      (oy (onAnimationFrame s) = L) = (snd (raw_offsets s) \<noteq> NaN)) \<and>
   (ToNumber (scalarX s) = Fin k \<longrightarrow> fst (raw_offsets s) \<noteq> NaN) \<and>
   (ToNumber (scalarY s) = Fin k \<longrightarrow> snd (raw_offsets s) \<noteq> NaN) \<and>
   (js_lt L (Fin 0) \<and> v \<noteq> NaN \<longrightarrow> Math_min (Math_max v (js_neg L)) L = L) \<and>
   clamp v mn mx = Math_min (Math_max v mn) mx \<and>
   limitX (limit (JNum L) y s) = JNum L \<and> limitY (limit x (JNum L) s) = JNum L"
proof (intro conjI impI)
  assume h: "limitX s = JNum L \<and> js_lt L (Fin 0)"
  then have "L \<noteq> NaN" by (cases L) auto
  with h show "(ox (onAnimationFrame s) = L) = (fst (raw_offsets s) \<noteq> NaN)"
    using clamp_negative_iff[of L "fst (raw_offsets s)"]
    by (simp add: ox_frame_raw isNaN_def)
next
  assume h: "limitY s = JNum L \<and> js_lt L (Fin 0)"
  then have "L \<noteq> NaN" by (cases L) auto
  with h show "(oy (onAnimationFrame s) = L) = (snd (raw_offsets s) \<noteq> NaN)"
    using clamp_negative_iff[of L "snd (raw_offsets s)"]
    by (simp add: oy_frame_raw isNaN_def)
next
  assume "js_lt L (Fin 0) \<and> v \<noteq> NaN"
  then show "Math_min (Math_max v (js_neg L)) L = L"
    using clamp_negative[of L v] by (simp add: clamp_def)
qed (simp_all add: limit_def clamp_def raw_offsets_finite)

text \<open>
  The tilted example instance with the limits \<open>-2\<close> and \<open>-Infinity\<close>: its raw offsets 25 and
  15 both end at the limit.
\<close>

theorem negative_limit_pins_offset_witness:
  "limitX (limit (JNum (Fin (- 2))) (JNum NegInf) tilted_instance) = JNum (Fin (- 2)) \<and>
   ox (onAnimationFrame (limit (JNum (Fin (- 2))) (JNum NegInf) tilted_instance)) = Fin (- 2) \<and>
   limitY (limit (JNum (Fin (- 2))) (JNum NegInf) tilted_instance) = JNum NegInf \<and>
   oy (onAnimationFrame (limit (JNum (Fin (- 2))) (JNum NegInf) tilted_instance)) = NegInf \<and>
   Math_min (Math_max (Fin 25) (Fin 2)) (Fin (- 2)) = Fin (- 2)"
  using negative_limit_pins_offset[of "limit (JNum (Fin (- 2))) (JNum NegInf) tilted_instance"
      "Fin (- 2)" 5 "Fin 25"]
    negative_limit_pins_offset[of "limit (JNum (Fin (- 2))) (JNum NegInf) tilted_instance"
      NegInf 3 "Fin 15"]
  by (simp add: tilted_instance_eq limit_def raw_offsets_eq)

section \<open>Calibration cancels the bias\<close>

text \<open>
  C6, as the specification states it, fails for a scalar that converts to no finite number:
  with the rotation at the bias, the scalar \<open>'fast'\<close> gives \<open>0 * NaN\<close> and the scalar
  \<open>Infinity\<close> gives \<open>0 * Infinity\<close>, both \<open>NaN\<close> and not 0.
\<close>

theorem non_numeric_scalar_counterexample:
  "rx misconfigured_instance = cx misconfigured_instance \<and>
   ry misconfigured_instance = cy misconfigured_instance \<and>
   scalarX misconfigured_instance = JStr ''fast'' \<and>
   limitX misconfigured_instance = JNum (Fin 1) \<and>
   limitY misconfigured_instance = JBool False \<and>
   ox (onAnimationFrame misconfigured_instance) = NaN \<and>
   ox (onAnimationFrame overdriven_instance) = NaN"
  by (simp add: misconfigured_instance_eq overdriven_instance_eq calibrated_instance_eq
      ox_frame_raw raw_offsets_eq isNaN_def clamp_def Math_max_def Math_min_def inf_of_sign_def
      js_le_def string_number_defs)

text \<open>
  C6, amended.  When the rotation equals the bias on both axes, a frame computes the offset
  \<open>(0, 0)\<close>, whatever the orientation mode, for scalars that convert to finite numbers and
  for limits that are unset (they fail the not-a-number check) or convert to a number not
  below 0.
\<close>

theorem rotation_at_bias_gives_zero_offset:
  assumes "rx s = cx s" and "ry s = cy s"
    and "ToNumber (scalarX s) = Fin kx" and "ToNumber (scalarY s) = Fin ky"
    and "isNaN (parseFloat (limitX s)) \<or> js_le (Fin 0) (ToNumber (limitX s))"
    and "isNaN (parseFloat (limitY s)) \<or> js_le (Fin 0) (ToNumber (limitY s))"
  shows "ox (onAnimationFrame s) = Fin 0 \<and> oy (onAnimationFrame s) = Fin 0"
proof -
  have raw: "raw_offsets s = (Fin 0, Fin 0)"
    using assms(1-4) by (simp add: raw_offsets_eq)
  show ?thesis
    using assms(5,6) by (auto simp: ox_frame_raw oy_frame_raw raw clamp_zero)
qed

text \<open>The example instance right after calibration: rotation and bias coincide.\<close>

theorem rotation_at_bias_gives_zero_offset_witness:
  "rx calibrated_instance = cx calibrated_instance \<and>
   ry calibrated_instance = cy calibrated_instance \<and>
   limitX calibrated_instance = JNum (Fin 1) \<and> limitY calibrated_instance = JBool False \<and>
   ox (onAnimationFrame calibrated_instance) = Fin 0 \<and>
   oy (onAnimationFrame calibrated_instance) = Fin 0"
  using rotation_at_bias_gives_zero_offset[of calibrated_instance 5 3]
  by (simp add: calibrated_instance_eq js_le_def isNaN_def)

section \<open>Independence of the z rotation\<close>

lemma forget_z_idem: "forget_z (forget_z s) = forget_z s"
  by (simp add: forget_z_def)

lemma forget_z_onAnimationFrame: "forget_z (onAnimationFrame s) = onAnimationFrame (forget_z s)"
  by (rule plugin.equality)
    (simp_all add: onAnimationFrame_eq forget_z_def Let_def calibrate_eq layer_position_def
      setPosition_def split del: if_split cong: if_cong option.case_cong)

lemma forget_z_onDeviceOrientation:
  "forget_z (onDeviceOrientation w e s) =
     forget_z (onDeviceOrientation w (e\<lparr>alpha := None\<rparr>) (forget_z s))"
  by (simp add: forget_z_def onDeviceOrientation_def setRotation_def setCalibrationRotation_def
      detectOrientationChange_def Let_def)

lemma funpow_forget_z:
  assumes "\<And>x. forget_z (f x) = forget_z (g (forget_z x))"
    and "\<And>x. forget_z (g (forget_z x)) = forget_z (g x)"
  shows "forget_z ((f ^^ n) s) = forget_z ((g ^^ n) (forget_z s))"
proof (induction n)
  case 0
  show ?case by (simp add: forget_z_idem)
next
  case (Suc n)
  have "forget_z ((f ^^ Suc n) s) = forget_z (g (forget_z ((f ^^ n) s)))"
    by (simp add: assms(1))
  also have "\<dots> = forget_z (g (forget_z ((g ^^ n) (forget_z s))))"
    by (simp add: Suc.IH)
  also have "\<dots> = forget_z ((g ^^ Suc n) (forget_z s))"
    by (simp add: assms(2))
  finally show ?case .
qed

lemma fold_forget_z:
  "forget_z (fold (\<lambda>h::nat. onAnimationFrame) hs s) = fold (\<lambda>h. onAnimationFrame) hs (forget_z s)"
  by (induction hs arbitrary: s) (simp_all add: forget_z_onAnimationFrame)

lemma forget_z_step: "forget_z (step a s) = forget_z (step (forget_alpha a) (forget_z s))"
proof (cases a)
  case (DeviceOrientation w e)
  have 1: "\<And>x. forget_z (onDeviceOrientation w e x) =
              forget_z (onDeviceOrientation w (e\<lparr>alpha := None\<rparr>) (forget_z x))"
    by (rule forget_z_onDeviceOrientation)
  have 2: "\<And>x. forget_z (onDeviceOrientation w (e\<lparr>alpha := None\<rparr>) (forget_z x)) =
              forget_z (onDeviceOrientation w (e\<lparr>alpha := None\<rparr>) x)"
    using forget_z_onDeviceOrientation[of w "e\<lparr>alpha := None\<rparr>"] by simp
  have "listeners (forget_z s) = listeners s"
    by (simp add: forget_z_def)
  then show ?thesis
    using DeviceOrientation funpow_forget_z[of "onDeviceOrientation w e"
        "onDeviceOrientation w (e\<lparr>alpha := None\<rparr>)" "listeners s" s, OF 1 2]
    by simp
next
  case AnimationFrame
  have upd: "\<And>x. forget_z (x\<lparr>frames := []\<rparr>) = (forget_z x)\<lparr>frames := []\<rparr>"
    by (simp add: forget_z_def)
  have fr: "frames (forget_z s) = frames s"
    by (simp add: forget_z_def)
  have "forget_z (step AnimationFrame s) =
          fold (\<lambda>h. onAnimationFrame) (frames s) ((forget_z s)\<lparr>frames := []\<rparr>)"
    by (simp only: step.simps fold_forget_z upd)
  moreover have "forget_z (step AnimationFrame (forget_z s)) =
          fold (\<lambda>h. onAnimationFrame) (frames s) ((forget_z s)\<lparr>frames := []\<rparr>)"
    by (simp only: step.simps fold_forget_z upd fr forget_z_idem)
  ultimately show ?thesis
    using AnimationFrame by simp
next
  case (Timeout h)
  then show ?thesis by (simp add: forget_z_def timeout_fires_def)
next
  case CallEnable
  then show ?thesis by (simp add: forget_z_def enable_eq)
next
  case CallDisable
  then show ?thesis by (simp add: forget_z_def disable_def cancelAnimationFrame_def split: option.split)
next
  case (CallInvert x y)
  then show ?thesis by (simp add: forget_z_def invert_def)
next
  case (CallScalar x y)
  then show ?thesis by (simp add: forget_z_def scalar_def)
next
  case (CallLimit x y)
  then show ?thesis by (simp add: forget_z_def limit_def)
qed

lemma forget_z_step_pair:
  assumes "forget_z s = forget_z t" and "forget_alpha a = forget_alpha b"
  shows "forget_z (step a s) = forget_z (step b t)"
proof -
  have "forget_z (step a s) = forget_z (step (forget_alpha a) (forget_z s))"
    by (rule forget_z_step)
  also have "\<dots> = forget_z (step (forget_alpha b) (forget_z t))"
    by (simp only: assms)
  also have "\<dots> = forget_z (step b t)"
    by (rule forget_z_step[symmetric])
  finally show ?thesis .
qed

lemma forget_z_run_pair:
  assumes "length as = length bs"
  shows "forget_z s = forget_z t \<Longrightarrow> map forget_alpha as = map forget_alpha bs \<Longrightarrow>
         forget_z (run as s) = forget_z (run bs t)"
  using assms
proof (induction as bs arbitrary: s t rule: list_induct2)
  case Nil
  then show ?case by (simp add: run_def)
next
  case (Cons a as b bs)
  have ab: "forget_alpha a = forget_alpha b"
    and rest: "map forget_alpha as = map forget_alpha bs"
    using Cons.prems(2) by simp_all
  have st: "forget_z (step a s) = forget_z (step b t)"
    using Cons.prems(1) ab by (rule forget_z_step_pair)
  have "forget_z (run as (step a s)) = forget_z (run bs (step b t))"
    using st rest by (rule Cons.IH)
  then show ?case
    by (simp add: run_def)
qed

lemma forget_z_fields:
  "ox (forget_z s) = ox s" "oy (forget_z s) = oy s" "positions (forget_z s) = positions s"
  by (simp_all add: forget_z_def)

text \<open>
  C10.  Two runs that start from states equal up to the stored z angles (\<open>rz\<close>, \<open>cz\<close>) and
  receive the same actions up to the \<open>alpha\<close> value of each sample end in states equal up
  to the stored z angles; in particular their offsets and their positioning commands are
  identical.  The z angle of a sample is stored all the same: in \<open>rz\<close> always, and in
  \<open>cz\<close> when the sample is captured as bias.
\<close>

theorem offsets_independent_of_z:
  assumes "forget_z s = forget_z t" and "map forget_alpha as = map forget_alpha bs"
  shows "forget_z (run as s) = forget_z (run bs t) \<and>
         ox (run as s) = ox (run bs t) \<and> oy (run as s) = oy (run bs t) \<and>
         positions (run as s) = positions (run bs t) \<and>
         rz (onDeviceOrientation w event s) = or_zero (alpha event) \<and>
         cz (onDeviceOrientation w event s) =
           (if calibrationFlag (detectOrientationChange w s) then or_zero (alpha event) else cz s)"
proof -
  have stored: "rz (onDeviceOrientation w event s) = or_zero (alpha event)"
    "cz (onDeviceOrientation w event s) =
       (if calibrationFlag (detectOrientationChange w s) then or_zero (alpha event) else cz s)"
    by (simp_all add: onDeviceOrientation_def setRotation_def setCalibrationRotation_def Let_def
        detectOrientationChange_def)
  have "length as = length bs"
    using assms(2) by (rule map_eq_imp_length_eq)
  then have eq: "forget_z (run as s) = forget_z (run bs t)"
    using assms by (rule forget_z_run_pair)
  then show ?thesis
    using stored forget_z_fields[of "run as s"] forget_z_fields[of "run bs t"] by simp
qed

text \<open>
  Two runs of the example instance whose samples and stored angles differ in z only.
\<close>

theorem offsets_independent_of_z_witness:
  "ox (run [DeviceOrientation tall_viewport sample_flat, DeviceOrientation tall_viewport sample_tilted,
            AnimationFrame] example_instance) =
   ox (run [DeviceOrientation tall_viewport (sample_flat\<lparr>alpha := Some 90\<rparr>),
            DeviceOrientation tall_viewport (sample_tilted\<lparr>alpha := Some 180\<rparr>),
            AnimationFrame] (example_instance\<lparr>cz := 45, rz := 270\<rparr>)) \<and>
   oy (run [DeviceOrientation tall_viewport sample_flat, DeviceOrientation tall_viewport sample_tilted,
            AnimationFrame] example_instance) =
   oy (run [DeviceOrientation tall_viewport (sample_flat\<lparr>alpha := Some 90\<rparr>),
            DeviceOrientation tall_viewport (sample_tilted\<lparr>alpha := Some 180\<rparr>),
            AnimationFrame] (example_instance\<lparr>cz := 45, rz := 270\<rparr>)) \<and>
   positions (run [DeviceOrientation tall_viewport sample_flat,
            DeviceOrientation tall_viewport sample_tilted, AnimationFrame] example_instance) =
   positions (run [DeviceOrientation tall_viewport (sample_flat\<lparr>alpha := Some 90\<rparr>),
            DeviceOrientation tall_viewport (sample_tilted\<lparr>alpha := Some 180\<rparr>),
            AnimationFrame] (example_instance\<lparr>cz := 45, rz := 270\<rparr>))"
  using offsets_independent_of_z[of example_instance "example_instance\<lparr>cz := 45, rz := 270\<rparr>"
      "[DeviceOrientation tall_viewport sample_flat, DeviceOrientation tall_viewport sample_tilted,
        AnimationFrame]"
      "[DeviceOrientation tall_viewport (sample_flat\<lparr>alpha := Some 90\<rparr>),
        DeviceOrientation tall_viewport (sample_tilted\<lparr>alpha := Some 180\<rparr>), AnimationFrame]"]
  by (simp add: forget_z_def)

section \<open>Layers without a depth\<close>

lemma step_static: "depths (step a s) = depths s \<and> layers (step a s) = layers s"
proof (cases a)
  case (DeviceOrientation w e)
  then show ?thesis
    using funpow_preserves[of depths "onDeviceOrientation w e"]
      funpow_preserves[of layers "onDeviceOrientation w e"]
    by (simp add: onDeviceOrientation_static)
next
  case AnimationFrame
  then show ?thesis
    using fold_preserves[of depths "\<lambda>h::nat. onAnimationFrame"]
      fold_preserves[of layers "\<lambda>h::nat. onAnimationFrame"]
    by (simp add: onAnimationFrame_static)
qed (simp_all add: timeout_fires_def enable_eq disable_def cancelAnimationFrame_def invert_def
    scalar_def limit_def split: option.split)

lemma run_static: "depths (run acts s) = depths s \<and> layers (run acts s) = layers s"
  unfolding run_def
  by (induction acts arbitrary: s) (simp_all add: step_static)

lemma Plugin_layers:
  "layers (Plugin t2 t3 el options) = layer_depth el"
  "depths (Plugin t2 t3 el options) = map (\<lambda>d. js_or d (JNum (Fin 0))) (layer_depth el)"
  by (simp_all add: Plugin_def initialise_def Let_def calibrate_eq enable_eq)

lemma js_mul_zero_sign: "c \<noteq> 0 \<Longrightarrow> js_mul (js_mul x (Fin 0)) (Fin c) = js_mul x (Fin 0)"
  by (cases x) (simp_all add: inf_of_sign_def)

lemma coords_layer_position_zero_depth:
  assumes "depth_at (depths s) i = JNum (Fin 0)"
  shows "coords (layer_position s i) = (js_mul (ox s) (Fin 0), js_mul (oy s) (Fin 0))"
  using assms by (simp add: layer_position_def setPosition_def Let_def js_mul_zero_sign)

lemma zero_depth_command:
  assumes "i < length (layers s)" and "depth_at (depths s) i = JNum (Fin 0)"
  shows "i < length (positions (onAnimationFrame s)) \<and>
         coords (positions (onAnimationFrame s) ! i) =
           (js_mul (ox (onAnimationFrame s)) (Fin 0), js_mul (oy (onAnimationFrame s)) (Fin 0))"
  using assms by (simp add: positions_onAnimationFrame coords_layer_position_zero_depth)

lemma example_run_eq:
  "run [DeviceOrientation tall_viewport sample_flat, DeviceOrientation tall_viewport sample_tilted]
     example_instance = tilted_instance"
  by (simp add: run_def tilted_instance_def calibrated_instance_def example_instance_eq
      onDeviceOrientation_static)

lemma negative_limit_run_eq:
  "run negative_limit_actions example_instance =
     tilted_instance\<lparr>limitX := JNum (Fin (- 2)), limitY := JNum NegInf\<rparr>"
  by (simp add: negative_limit_actions_def run_def tilted_instance_def calibrated_instance_def
      example_instance_eq onDeviceOrientation_static limit_def)

text \<open>
  C8, as the specification states it, fails for an offset that is no finite number.  The
  first layer of the example container has no depth attribute and is cached with depth 0;
  after \<open>limit(-2, -Infinity)\<close> the frame computes \<open>oy = -Infinity\<close>, and
  \<open>-Infinity * 0\<close> is \<open>NaN\<close>: the layer's command is \<open>(0, NaN)\<close>.
\<close>

theorem infinite_offset_counterexample:
  "layer_depth example_container ! 0 = JUndefined \<and>
   depths example_instance ! 0 = JNum (Fin 0) \<and>
   ox (onAnimationFrame (run negative_limit_actions example_instance)) = Fin (- 2) \<and>
   oy (onAnimationFrame (run negative_limit_actions example_instance)) = NegInf \<and>
   coords (positions (onAnimationFrame (run negative_limit_actions example_instance)) ! 0) =
     (Fin 0, NaN)"
proof -
  let ?s = "tilted_instance\<lparr>limitX := JNum (Fin (- 2)), limitY := JNum NegInf\<rparr>"
  have x: "ox (onAnimationFrame ?s) = Fin (- 2)" and y: "oy (onAnimationFrame ?s) = NegInf"
    by (simp_all add: ox_onAnimationFrame oy_onAnimationFrame tilted_instance_eq isNaN_def
        clamp_def Math_max_def Math_min_def Let_def)
  have c: "coords (positions (onAnimationFrame ?s) ! 0) =
      (js_mul (ox (onAnimationFrame ?s)) (Fin 0), js_mul (oy (onAnimationFrame ?s)) (Fin 0))"
    using zero_depth_command[of 0 ?s] by (simp add: tilted_instance_eq depth_at_def)
  have d: "depths example_instance ! 0 = JNum (Fin 0)"
    by (simp add: example_instance_eq)
  have l: "layer_depth example_container ! 0 = JUndefined"
    by (simp add: example_container_def)
  show ?thesis
    unfolding negative_limit_run_eq using c d l by (simp add: x y inf_of_sign_def)
qed

text \<open>
  C8, amended.  A layer whose markup gives no depth attribute, or a falsy one, is cached with
  depth 0 at setup; and whatever actions follow (samples, frames, timeouts, calls of the
  setters, with any inversion settings), every frame writes for it the command
  \<open>(ox * 0, oy * 0)\<close>, which is \<open>(0, 0)\<close> whenever the frame's offsets are finite numbers;
  an offset that is infinite or \<open>NaN\<close> gives \<open>NaN\<close> on its axis.
\<close>

theorem missing_depth_layer_is_static:
  assumes "i < length (layer_depth el)" and "\<not> truthy (layer_depth el ! i)"
  shows "depths (Plugin t2 t3 el options) ! i = JNum (Fin 0) \<and>
         i < length (positions (onAnimationFrame (run acts (Plugin t2 t3 el options)))) \<and>
         coords (positions (onAnimationFrame (run acts (Plugin t2 t3 el options))) ! i) =
           (js_mul (ox (onAnimationFrame (run acts (Plugin t2 t3 el options)))) (Fin 0),
            js_mul (oy (onAnimationFrame (run acts (Plugin t2 t3 el options)))) (Fin 0)) \<and>
         (ox (onAnimationFrame (run acts (Plugin t2 t3 el options))) = Fin a \<and>
          oy (onAnimationFrame (run acts (Plugin t2 t3 el options))) = Fin b \<longrightarrow>
            coords (positions (onAnimationFrame (run acts (Plugin t2 t3 el options))) ! i) =
              (Fin 0, Fin 0))"
proof -
  let ?p = "Plugin t2 t3 el options"
  let ?s = "run acts ?p"
  have d: "depths ?p ! i = JNum (Fin 0)"
    using assms by (simp add: Plugin_layers js_or_def)
  have len: "i < length (layers ?s)"
    using assms(1) by (simp add: run_static Plugin_layers)
  have dep: "depth_at (depths ?s) i = JNum (Fin 0)"
    using assms d by (simp add: depth_at_def run_static Plugin_layers)
  have cmd: "i < length (positions (onAnimationFrame ?s)) \<and>
      coords (positions (onAnimationFrame ?s) ! i) =
        (js_mul (ox (onAnimationFrame ?s)) (Fin 0), js_mul (oy (onAnimationFrame ?s)) (Fin 0))"
    using len dep by (rule zero_depth_command)
  have "ox (onAnimationFrame ?s) = Fin a \<and> oy (onAnimationFrame ?s) = Fin b \<longrightarrow>
      coords (positions (onAnimationFrame ?s) ! i) = (Fin 0, Fin 0)"
    using cmd by simp
  with d cmd show ?thesis
    by blast
qed

text \<open>
  The first layer of the example container has no depth attribute; after two samples the
  frame computes the offsets 1 and 15 and leaves that layer at \<open>(0, 0)\<close>.
\<close>

theorem missing_depth_layer_is_static_witness:
  "layer_depth example_container ! 0 = JUndefined \<and>
   depths example_instance ! 0 = JNum (Fin 0) \<and>
   ox (onAnimationFrame tilted_instance) = Fin 1 \<and> oy (onAnimationFrame tilted_instance) = Fin 15 \<and>
   coords (positions (onAnimationFrame tilted_instance) ! 0) = (Fin 0, Fin 0)"
proof -
  have x: "ox (onAnimationFrame tilted_instance) = Fin 1"
    and y: "oy (onAnimationFrame tilted_instance) = Fin 15"
    by (simp_all add: ox_onAnimationFrame oy_onAnimationFrame tilted_instance_eq isNaN_def
        clamp_def Math_max_def Math_min_def Let_def)
  show ?thesis
    using x y missing_depth_layer_is_static[of 0 example_container True True example_options
        "[DeviceOrientation tall_viewport sample_flat, DeviceOrientation tall_viewport sample_tilted]"
        1 15, folded example_instance_def]
    by (simp add: example_run_eq example_container_def)
qed

section \<open>Calibration\<close>

lemma detectOrientationChange_flag:
  "calibrationFlag (detectOrientationChange w s) =
     (calibrationFlag s \<or> portrait s \<noteq> (innerHeight w > innerWidth w))"
  "bias (detectOrientationChange w s) = bias s"
  "portrait (detectOrientationChange w s) = (innerHeight w > innerWidth w)"
  by (auto simp: detectOrientationChange_def bias_def Let_def)

lemma setCalibrationRotation_bias:
  "bias (setCalibrationRotation x y z s) = (if calibrationFlag s then (x, y, z) else bias s)"
  "\<not> calibrationFlag (setCalibrationRotation x y z s)"
  "portrait (setCalibrationRotation x y z s) = portrait s"
  by (simp_all add: setCalibrationRotation_def bias_def)

lemma setRotation_bias:
  "bias (setRotation x y z s) = bias s"
  "calibrationFlag (setRotation x y z s) = calibrationFlag s"
  "portrait (setRotation x y z s) = portrait s"
  by (simp_all add: setRotation_def bias_def)

lemma onDeviceOrientation_bias:
  "bias (onDeviceOrientation w event s) =
     (if calibrationFlag s \<or> portrait s \<noteq> (innerHeight w > innerWidth w)
      then (or_zero (beta event), or_zero (gamma event), or_zero (alpha event))
      else bias s)"
  "\<not> calibrationFlag (onDeviceOrientation w event s)"
  by (simp_all add: onDeviceOrientation_def Let_def setRotation_bias setCalibrationRotation_bias
      detectOrientationChange_flag)

lemma settled_fold:
  assumes "\<not> calibrationFlag s" and "portrait s = (innerHeight w > innerWidth w)"
  shows "bias (fold (onDeviceOrientation w) events s) = bias s"
  using assms
proof (induction events arbitrary: s)
  case Nil
  then show ?case by simp
next
  case (Cons e es)
  have "bias (fold (onDeviceOrientation w) es (onDeviceOrientation w e s)) =
          bias (onDeviceOrientation w e s)"
    by (rule Cons.IH) (simp_all add: onDeviceOrientation_bias portrait_onDeviceOrientation)
  then show ?case
    using Cons.prems by (simp add: onDeviceOrientation_bias)
qed

lemma step_bias:
  "(case a of DeviceOrientation w event \<Rightarrow> True | _ \<Rightarrow> bias (step a s) = bias s)"
proof (cases a)
  case AnimationFrame
  then show ?thesis
    using fold_preserves[of bias "\<lambda>h::nat. onAnimationFrame"]
    by (simp add: bias_def onAnimationFrame_static)
qed (simp_all add: bias_def timeout_fires_def enable_eq disable_def cancelAnimationFrame_def
    invert_def scalar_def limit_def split: option.split)

text \<open>
  C7, as the specification states it, fails when a sample arrives in a viewport whose
  orientation has changed: the calibrated example instance has the flag clear, yet the
  handler sets the flag for the change and captures the sample in the same run.
\<close>

theorem orientation_change_capture_counterexample:
  "\<not> calibrationFlag calibrated_instance \<and> portrait calibrated_instance \<and>
   bias calibrated_instance = (10, 20, 30) \<and>
   bias (onDeviceOrientation square_viewport sample_tilted calibrated_instance) = (15, 25, 0)"
  unfolding onDeviceOrientation_bias
  by (simp add: calibrated_instance_eq bias_def square_viewport_def sample_tilted_def
      or_zero_def)

text \<open>
  C7, amended.  The bias is written by the capture block of \<open>onDeviceOrientation\<close> alone, and
  only when that block finds the calibration flag set: set on entry, or set earlier in the
  same run by \<open>detectOrientationChange\<close> for a change of orientation.  The block clears the
  flag together with the capture, and the handler always leaves the flag clear, so each
  setting of the flag results in at most one capture: the samples that follow a capture in
  the same viewport keep the bias.  When the flag is clear and the sample brings no change
  of orientation, processing it leaves the bias unchanged.  Frames, timeouts and the calls
  of the public interface leave the bias as it is.
\<close>

theorem bias_captured_only_when_flagged:
  "bias (setCalibrationRotation x y z s) = (if calibrationFlag s then (x, y, z) else bias s) \<and>
   \<not> calibrationFlag (setCalibrationRotation x y z s) \<and>
   (\<not> calibrationFlag s \<longrightarrow> setCalibrationRotation x y z s = s) \<and>
   bias (onDeviceOrientation w event s) =
     (if calibrationFlag (detectOrientationChange w s)
      then (or_zero (beta event), or_zero (gamma event), or_zero (alpha event))
      else bias s) \<and>
   calibrationFlag (detectOrientationChange w s) =
     (calibrationFlag s \<or> portrait s \<noteq> (innerHeight w > innerWidth w)) \<and>
   \<not> calibrationFlag (onDeviceOrientation w event s) \<and>
   bias (fold (onDeviceOrientation w) events (onDeviceOrientation w event s)) =
     bias (onDeviceOrientation w event s) \<and>
   bias (detectOrientationChange w s) = bias s \<and>
   bias (setRotation x y z s) = bias s \<and>
   bias (onAnimationFrame s) = bias s \<and>
   (case a of DeviceOrientation w' event' \<Rightarrow> True | _ \<Rightarrow> bias (step a s) = bias s)"
proof -
  have "bias (fold (onDeviceOrientation w) events (onDeviceOrientation w event s)) =
          bias (onDeviceOrientation w event s)"
    by (rule settled_fold) (simp_all add: onDeviceOrientation_bias portrait_onDeviceOrientation)
  moreover have "bias (onAnimationFrame s) = bias s"
    by (simp add: bias_def onAnimationFrame_static)
  moreover have "\<not> calibrationFlag s \<longrightarrow> setCalibrationRotation x y z s = s"
    by (simp add: setCalibrationRotation_def)
  ultimately show ?thesis
    using step_bias[of a s]
    by (simp add: onDeviceOrientation_bias detectOrientationChange_flag setCalibrationRotation_bias
        setRotation_bias)
qed

text \<open>
  The example instance starts with the flag set and captures its first sample; the second
  sample finds the flag clear and leaves the bias, unless the viewport has changed
  orientation, which sets the flag again.
\<close>

theorem bias_captured_only_when_flagged_witness:
  "calibrationFlag example_instance \<and>
   bias (onDeviceOrientation tall_viewport sample_flat example_instance) = (10, 20, 30) \<and>
   \<not> calibrationFlag calibrated_instance \<and>
   setCalibrationRotation 15 25 0 calibrated_instance = calibrated_instance \<and>
   bias (onDeviceOrientation tall_viewport sample_tilted calibrated_instance) = (10, 20, 30) \<and>
   bias (onDeviceOrientation square_viewport sample_tilted calibrated_instance) = (15, 25, 0)"
  using bias_captured_only_when_flagged[of 15 25 0 calibrated_instance tall_viewport sample_tilted
      "[]" AnimationFrame]
    bias_captured_only_when_flagged[of 10 20 30 example_instance tall_viewport sample_flat
      "[]" AnimationFrame]
    bias_captured_only_when_flagged[of 15 25 0 calibrated_instance square_viewport sample_tilted
      "[]" AnimationFrame]
  by (simp add: calibrated_instance_eq example_instance_eq bias_def tall_viewport_def
      square_viewport_def sample_flat_def sample_tilted_def or_zero_def detectOrientationChange_def)

section \<open>Settings\<close>

lemma extend1_apply:
  "extend1 target src k =
     (case src k of None \<Rightarrow> target k | Some v \<Rightarrow> if v = JUndefined then target k else Some v)"
  by (simp add: extend1_def)

lemma compose_settings_apply:
  "compose_settings options attrs k =
     (case delete_nulls (data_extraction attrs) k of
        Some v \<Rightarrow> if v = JUndefined then jQuery_extend Map.empty [DEFAULTS, options] k else Some v
      | None \<Rightarrow> jQuery_extend Map.empty [DEFAULTS, options] k)"
  by (simp add: compose_settings_def jQuery_extend_def extend1_apply split: option.split)

lemma truthy_not_null: "truthy v \<Longrightarrow> v \<noteq> JNull \<and> v \<noteq> JUndefined"
  by (cases v) auto

lemma delete_nulls_or:
  "d k = Some (js_or v JNull) \<Longrightarrow> delete_nulls d k = (if truthy v then Some v else None)"
  using truthy_not_null[of v] by (auto simp: delete_nulls_def js_or_def)

lemma Plugin_settings:
  "invertX (Plugin t2 t3 el options) = property (compose_settings options (attr el)) ''invertX''"
  "invertY (Plugin t2 t3 el options) = property (compose_settings options (attr el)) ''invertY''"
  "limitX (Plugin t2 t3 el options) = property (compose_settings options (attr el)) ''limitX''"
  "limitY (Plugin t2 t3 el options) = property (compose_settings options (attr el)) ''limitY''"
  "scalarX (Plugin t2 t3 el options) = property (compose_settings options (attr el)) ''scalarX''"
  "scalarY (Plugin t2 t3 el options) = property (compose_settings options (attr el)) ''scalarY''"
  by (simp_all add: Plugin_def initialise_def Let_def calibrate_eq enable_eq)

lemma direct_setting:
  assumes "(k, a) \<in> {(''transition'', ''transition''), (''invertX'', ''invert-x''),
                      (''invertY'', ''invert-y'')}"
  shows "property (compose_settings options attrs) k =
           (if truthy (property attrs a) then property attrs a else from_options options k)"
proof -
  have "data_extraction attrs k = Some (js_or (property attrs a) JNull)"
    using assms by (auto simp: data_extraction_def)
  then have "delete_nulls (data_extraction attrs) k =
      (if truthy (property attrs a) then Some (property attrs a) else None)"
    by (rule delete_nulls_or)
  then show ?thesis
    using truthy_not_null[of "property attrs a"]
    by (simp add: property_def compose_settings_apply from_options_def)
qed

lemma numeric_setting:
  assumes "(k, a) \<in> {(''limitX'', ''limit-x''), (''limitY'', ''limit-y''),
                      (''scalarX'', ''scalar-x''), (''scalarY'', ''scalar-y'')}"
  shows "property (compose_settings options attrs) k =
           (if truthy (JNum (parseFloat (property attrs a))) then JNum (parseFloat (property attrs a))
            else from_options options k)"
proof -
  have "data_extraction attrs k = Some (js_or (JNum (parseFloat (property attrs a))) JNull)"
    using assms by (auto simp: data_extraction_def)
  then have "delete_nulls (data_extraction attrs) k =
      (if truthy (JNum (parseFloat (property attrs a)))
       then Some (JNum (parseFloat (property attrs a))) else None)"
    by (rule delete_nulls_or)
  then show ?thesis
    by (simp add: property_def compose_settings_apply from_options_def)
qed

lemma from_options_apply:
  "from_options options k =
     (case options k of
        None \<Rightarrow> property DEFAULTS k
      | Some v \<Rightarrow> if v = JUndefined then property DEFAULTS k else v)"
  by (simp add: from_options_def jQuery_extend_def extend1_apply property_def split: option.split)

text \<open>
  C2, as the specification states it, fails: the example container declares
  \<open>data-scalar-x="5"\<close>, the explicit options give \<open>scalarX: 2\<close>, and the instance
  uses 5.
\<close>

theorem explicit_option_overridden_counterexample:
  "property example_options ''scalarX'' = JNum (Fin 2) \<and>
   property (attr example_container) ''scalar-x'' = JNum (Fin 5) \<and>
   scalarX example_instance = JNum (Fin 5)"
  by (simp add: example_instance_eq example_options_def example_container_def property_def)

text \<open>
  C2, amended.  For each key that has a declarative attribute, the attribute takes precedence
  over the explicit option: when the attribute's value is truthy (for the limit and scalar
  keys: when \<open>parseFloat\<close> of it is a number other than 0 and \<open>NaN\<close>) the composed settings
  hold that value (for the limit and scalar keys, the parsed number); an absent or
  falsy/\<open>NaN\<close> attribute leaves in effect the explicit option, if one is supplied and is not
  \<open>undefined\<close>, and the default otherwise.  The instance's fields are the composed
  settings.
\<close>

theorem attribute_precedence:
  "((k, a) \<in> {(''transition'', ''transition''), (''invertX'', ''invert-x''),
               (''invertY'', ''invert-y'')} \<longrightarrow>
      property (compose_settings options attrs) k =
        (if truthy (property attrs a) then property attrs a else from_options options k)) \<and>
   ((k, a) \<in> {(''limitX'', ''limit-x''), (''limitY'', ''limit-y''),
               (''scalarX'', ''scalar-x''), (''scalarY'', ''scalar-y'')} \<longrightarrow>
      property (compose_settings options attrs) k =
        (if truthy (JNum (parseFloat (property attrs a))) then JNum (parseFloat (property attrs a))
         else from_options options k)) \<and>
   from_options options k =
     (case options k of
        None \<Rightarrow> property DEFAULTS k
      | Some v \<Rightarrow> if v = JUndefined then property DEFAULTS k else v) \<and>
   invertX (Plugin t2 t3 el options) = property (compose_settings options (attr el)) ''invertX'' \<and>
   invertY (Plugin t2 t3 el options) = property (compose_settings options (attr el)) ''invertY'' \<and>
   limitX (Plugin t2 t3 el options) = property (compose_settings options (attr el)) ''limitX'' \<and>
   limitY (Plugin t2 t3 el options) = property (compose_settings options (attr el)) ''limitY'' \<and>
   scalarX (Plugin t2 t3 el options) = property (compose_settings options (attr el)) ''scalarX'' \<and>
   scalarY (Plugin t2 t3 el options) = property (compose_settings options (attr el)) ''scalarY''"
  using direct_setting[of k a options attrs] numeric_setting[of k a options attrs]
    from_options_apply[of options k] Plugin_settings[of t2 t3 el options]
  by blast

text \<open>
  On the example: the declared scalar wins over the option; the undeclared one comes from the
  options; the undeclared, unsupplied limit keeps its default.
\<close>

theorem attribute_precedence_witness:
  "scalarX (Plugin True True example_container example_options) = JNum (Fin 5) \<and>
   scalarY (Plugin True True example_container example_options) = JNum (Fin 3) \<and>
   limitY (Plugin True True example_container example_options) = JBool False"
proof -
  have x: "property (compose_settings example_options (attr example_container)) ''scalarX'' =
      JNum (Fin 5)"
    using attribute_precedence[of "''scalarX''" "''scalar-x''" example_options
        "attr example_container"]
    by (simp add: example_container_def property_def)
  have y: "property (compose_settings example_options (attr example_container)) ''scalarY'' =
      JNum (Fin 3)"
    using attribute_precedence[of "''scalarY''" "''scalar-y''" example_options
        "attr example_container"]
    by (simp add: example_container_def example_options_def property_def)
  have z: "property (compose_settings example_options (attr example_container)) ''limitY'' =
      JBool False"
    using attribute_precedence[of "''limitY''" "''limit-y''" example_options
        "attr example_container"]
    by (simp add: example_container_def example_options_def property_def DEFAULTS_def)
  show ?thesis
    using x y z attribute_precedence[of "''scalarX''" "''scalar-x''" example_options
        "attr example_container" True True example_container]
    by simp
qed

section \<open>Enabling twice\<close>

lemma frames_fold_onAnimationFrame:
  "length (frames (fold (\<lambda>h::nat. onAnimationFrame) hs s)) = length (frames s) + length hs"
  by (induction hs arbitrary: s) (simp_all add: onAnimationFrame_eq Let_def)

text \<open>
  C3, as the specification states it, fails: the example instance is running (its
  constructor has enabled it), and a second \<open>enable\<close> leaves it with two subscriptions and
  two pending frame requests.
\<close>

theorem enable_twice_counterexample:
  "listeners example_instance = 1 \<and> frames example_instance = [0] \<and>
   listeners (enable example_instance) = 2 \<and> frames (enable example_instance) = [0, 2]"
  by (simp add: example_instance_eq enable_eq)

text \<open>
  C3, amended.  \<open>enable\<close> has no guard: every call, on a running instance too, adds one
  \<open>deviceorientation\<close> subscription and one pending animation-frame request, stores the
  handle of the newest request in \<open>raf\<close>, and changes nothing else; a second call leaves
  one subscription and one pending request more than the first.  A rendered frame keeps the
  number of pending requests, every tick scheduling its successor, so the additional
  request is an additional tick loop.
\<close>

theorem enable_adds_subscription_and_loop:
  "enable s =
     s\<lparr>listeners := Suc (listeners s), frames := frames s @ [next_handle s],
       next_handle := Suc (next_handle s), raf := Some (next_handle s)\<rparr> \<and>
   listeners (enable (enable s)) = Suc (listeners (enable s)) \<and>
   length (frames (enable (enable s))) = Suc (length (frames (enable s))) \<and>
   length (frames (step AnimationFrame s)) = length (frames s)"
  by (simp add: enable_eq frames_fold_onAnimationFrame)

end
